theory Spec2Isabelle
  imports Main "HOL-Library.Word"
begin

section \<open>Python values reaching the client\<close>

text \<open>
  The client of \<^verbatim>\<open>src/opac_ssm_api/client.py\<close> is duck-typed: identifiers, file names,
  metadata and bucket names arrive as arbitrary Python objects and the code inspects them with
  \<^verbatim>\<open>isinstance\<close> and with their truth value. \<open>pyval\<close> carries the classes those tests can
  tell apart. \<open>PObj b\<close> stands for an object of any other class (a set, an instance of a
  user class); \<open>b\<close> is its truth value. Strings are Python 3 text strings, so a bytes object
  is not an instance of \<^verbatim>\<open>six.string_types\<close>. Floating point numbers are left out.
\<close>

type_synonym byte = "8 word"

datatype pyval =
    PNone
  | PBool bool
  | PInt int
  | PStr string
  | PBytes "byte list"
  | PList "pyval list"
  | PDict "(string \<times> pyval) list"
  | PObj bool

text \<open>The truth value Python gives an object in \<^verbatim>\<open>if not x\<close>.\<close>

fun truthy :: "pyval \<Rightarrow> bool" where
  "truthy PNone = False"
| "truthy (PBool b) = b"
| "truthy (PInt i) = (i \<noteq> 0)"
| "truthy (PStr s) = (s \<noteq> [])"
| "truthy (PBytes bs) = (bs \<noteq> [])"
| "truthy (PList xs) = (xs \<noteq> [])"
| "truthy (PDict kvs) = (kvs \<noteq> [])"
| "truthy (PObj b) = b"

text \<open>\<^verbatim>\<open>isinstance(x, dict)\<close> and \<^verbatim>\<open>isinstance(x, six.string_types)\<close>.\<close>

fun is_dict :: "pyval \<Rightarrow> bool" where
  "is_dict (PDict kvs) = True"
| "is_dict v = False"

fun is_string :: "pyval \<Rightarrow> bool" where
  "is_string (PStr s) = True"
| "is_string v = False"

datatype error =
    ValueError string
  | IOError string
  | TypeError string
  | RpcError string

section \<open>The JSON encoder\<close>

text \<open>
  \<^verbatim>\<open>json.dumps\<close> of the standard library with its default settings: items separated by
  a comma and a space, keys from values by a colon and a space, every character outside the
  printable ASCII range escaped. A value the encoder does not know raises \<^verbatim>\<open>TypeError\<close>.
\<close>

definition digit_char :: "nat \<Rightarrow> char" where
  "digit_char n = ''0123456789abcdef'' ! n"

fun dec_digits :: "nat \<Rightarrow> string" where
  "dec_digits n = (if n < 10 then [digit_char n]
                   else dec_digits (n div 10) @ [digit_char (n mod 10)])"

declare dec_digits.simps [simp del]

definition str_of_int :: "int \<Rightarrow> string" where
  "str_of_int i = (if i < 0 then CHR ''-'' # dec_digits (nat (- i)) else dec_digits (nat i))"

definition hex4 :: "nat \<Rightarrow> string" where
  "hex4 n = [digit_char (n div 4096 mod 16), digit_char (n div 256 mod 16),
             digit_char (n div 16 mod 16), digit_char (n mod 16)]"

definition esc_char :: "char \<Rightarrow> string" where
  "esc_char c =
     (if c = CHR 0x22 then [CHR 0x5C, CHR 0x22]
      else if c = CHR 0x5C then [CHR 0x5C, CHR 0x5C]
      else if c = CHR 0x0A then [CHR 0x5C, CHR ''n'']
      else if c = CHR 0x0D then [CHR 0x5C, CHR ''r'']
      else if c = CHR 0x09 then [CHR 0x5C, CHR ''t'']
      else if c = CHR 0x0C then [CHR 0x5C, CHR ''f'']
      else if c = CHR 0x08 then [CHR 0x5C, CHR ''b'']
      else if (of_char c :: nat) < 32 \<or> 126 < (of_char c :: nat)
        then [CHR 0x5C, CHR ''u''] @ hex4 (of_char c)
      else [c])"

definition json_str :: "string \<Rightarrow> string" where
  "json_str s = [CHR 0x22] @ concat (map esc_char s) @ [CHR 0x22]"

fun join :: "string \<Rightarrow> string list \<Rightarrow> string" where
  "join sep [] = []"
| "join sep [x] = x"
| "join sep (x # y # ys) = x @ sep @ join sep (y # ys)"

fun json_ok :: "pyval \<Rightarrow> bool" where
  "json_ok PNone = True"
| "json_ok (PBool b) = True"
| "json_ok (PInt i) = True"
| "json_ok (PStr s) = True"
| "json_ok (PBytes bs) = False"
| "json_ok (PList xs) = list_all json_ok xs"
| "json_ok (PDict kvs) = list_all (\<lambda>kv. json_ok (snd kv)) kvs"
| "json_ok (PObj b) = False"

fun json_text :: "pyval \<Rightarrow> string" where
  "json_text PNone = ''null''"
| "json_text (PBool b) = (if b then ''true'' else ''false'')"
| "json_text (PInt i) = str_of_int i"
| "json_text (PStr s) = json_str s"
| "json_text (PBytes bs) = []"
| "json_text (PList xs) = ''['' @ join '', '' (map json_text xs) @ '']''"
| "json_text (PDict kvs) =
     ''{'' @ join '', '' (map (\<lambda>kv. json_str (fst kv) @ '': '' @ json_text (snd kv)) kvs) @ ''}''"
| "json_text (PObj b) = []"

definition json_dumps :: "pyval \<Rightarrow> error + string" where
  "json_dumps v = (if json_ok v then Inr (json_text v)
                   else Inl (TypeError ''Object is not JSON serializable''))"

section \<open>Wire messages, the stubs and the world\<close>

text \<open>
  The message classes of \<^verbatim>\<open>opac_pb2\<close> are generated at run time from the protocol file
  that the server publishes, so a message is recorded as the keyword arguments its
  constructor was given: \<open>None\<close> for a field that was not passed. \<^verbatim>\<open>TaskId\<close> and
  \<^verbatim>\<open>BucketName\<close> are built only after their fields passed the string test and appear
  as the strings themselves.
\<close>

record asset_msg =
  m_file :: "pyval option"
  m_filename :: "pyval option"
  m_type :: "pyval option"
  m_metadata :: "pyval option"
  m_bucket :: "pyval option"

definition no_fields :: asset_msg where
  "no_fields = \<lparr>m_file = None, m_filename = None, m_type = None, m_metadata = None,
                 m_bucket = None\<rparr>"

record asset_reply =
  r_file :: pyval
  r_filename :: pyval
  r_type :: pyval
  r_metadata :: pyval
  r_uuid :: pyval
  r_bucket :: pyval

record info_reply =
  r_url :: pyval
  r_url_path :: pyval

text \<open>One constructor for each method of the two stubs, with the request it was given.\<close>

datatype call =
    Add_asset asset_msg
  | Get_asset string
  | Get_asset_info string
  | Get_task_state string
  | Exists_asset string
  | Update_asset asset_msg
  | Remove_asset string
  | Add_bucket string
  | Add_update string string
  | Exists_bucket string
  | Remove_bucket string

fun mutating :: "call \<Rightarrow> bool" where
  "mutating (Add_asset m) = True"
| "mutating (Update_asset m) = True"
| "mutating (Remove_asset i) = True"
| "mutating (Add_bucket n) = True"
| "mutating (Add_update n n') = True"
| "mutating (Remove_bucket n) = True"
| "mutating c = False"

text \<open>
  The remote service is a parameter: each stub method is a function of the request and the
  server's state that returns a reply, or the exception the transport raises, and the
  server's next state. Replies enter the client only through the attribute it reads
  (\<^verbatim>\<open>.id\<close>, \<^verbatim>\<open>.state\<close>) or, for the two existence probes, through their truth value.
\<close>

record 's stub =
  rpc_add_asset :: "asset_msg \<Rightarrow> 's \<Rightarrow> (error + string) \<times> 's"
  rpc_get_asset :: "string \<Rightarrow> 's \<Rightarrow> (error + asset_reply) \<times> 's"
  rpc_get_asset_info :: "string \<Rightarrow> 's \<Rightarrow> (error + info_reply) \<times> 's"
  rpc_get_task_state :: "string \<Rightarrow> 's \<Rightarrow> (error + pyval) \<times> 's"
  rpc_exists_asset :: "string \<Rightarrow> 's \<Rightarrow> (error + bool) \<times> 's"
  rpc_update_asset :: "asset_msg \<Rightarrow> 's \<Rightarrow> (error + string) \<times> 's"
  rpc_remove_asset :: "string \<Rightarrow> 's \<Rightarrow> (error + pyval) \<times> 's"
  rpc_add_bucket :: "string \<Rightarrow> 's \<Rightarrow> (error + string) \<times> 's"
  rpc_add_update :: "string \<Rightarrow> string \<Rightarrow> 's \<Rightarrow> (error + string) \<times> 's"
  rpc_exists_bucket :: "string \<Rightarrow> 's \<Rightarrow> (error + bool) \<times> 's"
  rpc_remove_bucket :: "string \<Rightarrow> 's \<Rightarrow> (error + pyval) \<times> 's"

text \<open>
  What a call of the client can change: the stub methods invoked so far, in order, the
  lines written to the logger, and the state of the server.
\<close>

record 's world =
  calls :: "call list"
  logs :: "string list"
  server :: 's

definition log_msg :: "string \<Rightarrow> 's world \<Rightarrow> 's world" where
  "log_msg msg w = w\<lparr>logs := logs w @ [msg]\<rparr>"

definition invoke :: "call \<Rightarrow> ('s \<Rightarrow> (error + 'r) \<times> 's) \<Rightarrow> 's world \<Rightarrow> (error + 'r) \<times> 's world" where
  "invoke c f w = (case f (server w) of
                     (r, s') \<Rightarrow> (r, w\<lparr>calls := calls w @ [c], server := s'\<rparr>))"

section \<open>Content sources\<close>

text \<open>
  \<^verbatim>\<open>pfile\<close> is either an object with a \<^verbatim>\<open>read\<close> attribute, given here by the bytes
  \<^verbatim>\<open>read()\<close> returns, or a path. The file system maps the paths of the regular files the
  process may read to their contents; \<^verbatim>\<open>os.path.isfile(p) and os.access(p, os.R_OK)\<close> holds
  exactly on its domain.
\<close>

datatype content = Stream "byte list" | Path string

type_synonym files = "string \<Rightarrow> byte list option"

text \<open>\<^verbatim>\<open>os.path.basename\<close> on a POSIX system: what follows the last slash.\<close>

definition basename :: "string \<Rightarrow> string" where
  "basename p = rev (takeWhile (\<lambda>c. c \<noteq> CHR ''/'') (rev p))"

definition msg_metadata :: string where
  "msg_metadata = ''Param '' @ [CHR 0x22] @ ''metadata'' @ [CHR 0x22] @ '' must be a Dict or None.''"

definition msg_filename :: string where
  "msg_filename = ''Param '' @ [CHR 0x22] @ ''filename'' @ [CHR 0x22] @ '' is required''"

definition msg_unreadable :: string where
  "msg_unreadable = ''The file pointed: (%s) is not a file or is unreadable.''"

definition log_unreadable :: "string \<Rightarrow> string" where
  "log_unreadable p = ''The file pointed: ('' @ p @ '') is not a file or is unreadable.''"

section \<open>Client.add\_asset\<close>

text \<open>
  Lines 89 to 97: the message is built, with the metadata encoded, and handed to the stub;
  the reply's \<^verbatim>\<open>id\<close> is returned.
\<close>

definition add_asset_send ::
  "'s stub \<Rightarrow> byte list \<Rightarrow> pyval \<Rightarrow> pyval \<Rightarrow> pyval \<Rightarrow> pyval \<Rightarrow> 's world
     \<Rightarrow> (error + string) \<times> 's world" where
  "add_asset_send st file_content filename filetype metadata bucket_name w =
     (case json_dumps metadata of
        Inl e \<Rightarrow> (Inl e, w)
      | Inr js \<Rightarrow>
          (let asset = \<lparr>m_file = Some (PBytes file_content), m_filename = Some filename,
                        m_type = Some filetype, m_metadata = Some (PStr js),
                        m_bucket = Some bucket_name\<rparr>
           in invoke (Add_asset asset) (rpc_add_asset st asset) w))"

text \<open>Lines 71 to 87: the content source is resolved to bytes and a file name.\<close>

definition add_asset_content ::
  "'s stub \<Rightarrow> files \<Rightarrow> content \<Rightarrow> pyval \<Rightarrow> pyval \<Rightarrow> pyval \<Rightarrow> pyval \<Rightarrow> 's world
     \<Rightarrow> (error + string) \<times> 's world" where
  "add_asset_content st fs pfile filename filetype metadata bucket_name w =
     (case pfile of
        Stream bs \<Rightarrow>
          (if \<not> truthy filename then (Inl (ValueError msg_filename), log_msg msg_filename w)
           else add_asset_send st bs filename filetype metadata bucket_name w)
      | Path p \<Rightarrow>
          (case fs p of
             Some bs \<Rightarrow> add_asset_send st bs (PStr (basename p)) filetype metadata bucket_name w
           | None \<Rightarrow> (Inl (IOError msg_unreadable), log_msg (log_unreadable p) w)))"

text \<open>Lines 64 to 69: the metadata test, then the rest of the body.\<close>

definition add_asset_body ::
  "'s stub \<Rightarrow> files \<Rightarrow> content \<Rightarrow> pyval \<Rightarrow> pyval \<Rightarrow> pyval \<Rightarrow> pyval \<Rightarrow> 's world
     \<Rightarrow> (error + string) \<times> 's world" where
  "add_asset_body st fs pfile filename filetype metadata bucket_name w =
     (if \<not> truthy metadata
        then add_asset_content st fs pfile filename filetype (PDict []) bucket_name w
      else if \<not> is_dict metadata
        then (Inl (ValueError msg_metadata), log_msg msg_metadata w)
      else add_asset_content st fs pfile filename filetype metadata bucket_name w)"

text \<open>
  The signature of line 46: a keyword argument the caller leaves out (\<open>None\<close> here) takes
  its default, the empty string for \<^verbatim>\<open>filename\<close>, \<^verbatim>\<open>filetype\<close> and \<^verbatim>\<open>metadata\<close>.
\<close>

definition default_bucket_name :: string where
  "default_bucket_name = ''UNKNOW''"

definition or_default :: "pyval \<Rightarrow> pyval option \<Rightarrow> pyval" where
  "or_default d a = (case a of None \<Rightarrow> d | Some v \<Rightarrow> v)"

definition add_asset ::
  "'s stub \<Rightarrow> files \<Rightarrow> content \<Rightarrow> pyval option \<Rightarrow> pyval option \<Rightarrow> pyval option
     \<Rightarrow> pyval option \<Rightarrow> 's world \<Rightarrow> (error + string) \<times> 's world" where
  "add_asset st fs pfile filename filetype metadata bucket_name w =
     add_asset_body st fs pfile (or_default (PStr []) filename) (or_default (PStr []) filetype)
       (or_default (PStr []) metadata) (or_default (PStr default_bucket_name) bucket_name) w"

section \<open>The read operations\<close>

definition msg_id :: string where
  "msg_id = ''Param id must be a str|unicode.''"

text \<open>Lines 99 to 125. The result is the dictionary of line 118, keys in source order.\<close>

definition get_asset :: "'s stub \<Rightarrow> pyval \<Rightarrow> 's world \<Rightarrow> (error + (string \<times> pyval) list) \<times> 's world" where
  "get_asset st ident w =
     (case ident of
        PStr i \<Rightarrow>
          (case invoke (Get_asset i) (rpc_get_asset st i) w of
             (Inl e, w') \<Rightarrow> (Inl e, w')
           | (Inr asset, w') \<Rightarrow>
               (Inr [(''file'', r_file asset), (''filename'', r_filename asset),
                     (''type'', r_type asset), (''metadata'', r_metadata asset),
                     (''uuid'', r_uuid asset), (''bucket'', r_bucket asset)], w'))
      | _ \<Rightarrow> (Inl (ValueError msg_id), log_msg msg_id w))"

text \<open>Lines 127 to 147.\<close>

definition get_asset_info :: "'s stub \<Rightarrow> pyval \<Rightarrow> 's world \<Rightarrow> (error + (string \<times> pyval) list) \<times> 's world" where
  "get_asset_info st ident w =
     (case ident of
        PStr i \<Rightarrow>
          (case invoke (Get_asset_info i) (rpc_get_asset_info st i) w of
             (Inl e, w') \<Rightarrow> (Inl e, w')
           | (Inr info, w') \<Rightarrow>
               (Inr [(''url'', r_url info), (''url_path'', r_url_path info)], w'))
      | _ \<Rightarrow> (Inl (ValueError msg_id), log_msg msg_id w))"

text \<open>Lines 149 to 166.\<close>

definition get_task_state :: "'s stub \<Rightarrow> pyval \<Rightarrow> 's world \<Rightarrow> (error + pyval) \<times> 's world" where
  "get_task_state st ident w =
     (case ident of
        PStr i \<Rightarrow> invoke (Get_task_state i) (rpc_get_task_state st i) w
      | _ \<Rightarrow> (Inl (ValueError msg_id), log_msg msg_id w))"

section \<open>Client.update\_asset\<close>

definition msg_uuid :: string where
  "msg_uuid = ''Param '' @ [CHR 0x22] @ ''uuid'' @ [CHR 0x22] @ '' must be a str|unicode.''"

definition log_absent :: "string \<Rightarrow> string" where
  "log_absent u = ''Dont exist asset with id: '' @ u"

text \<open>
  Modelled from the spec: the message class \<^verbatim>\<open>opac_pb2.Asset\<close> is generated at run time
  from the protocol file and is not among the sources. Section 6 of the specification gives
  its shape, \<^verbatim>\<open>Asset{file: bytes, filename: string, type: string, metadata: string,
  bucket: string}\<close>. The constructor of a generated message takes the fields as keyword
  arguments and raises \<^verbatim>\<open>TypeError\<close> when a value is not of the type of its field; a
  field that is not passed stays unset. The constructor is written out where
  \<^verbatim>\<open>update_asset\<close> builds its message: the one place where the client itself makes a value
  of another type, the dictionary of line 194.
\<close>

fun is_bytes :: "pyval \<Rightarrow> bool" where
  "is_bytes (PBytes bs) = True"
| "is_bytes v = False"

definition field_is :: "(pyval \<Rightarrow> bool) \<Rightarrow> pyval option \<Rightarrow> bool" where
  "field_is P f = (case f of None \<Rightarrow> True | Some v \<Rightarrow> P v)"

definition msg_field_type :: string where
  "msg_field_type = ''field value has the wrong type''"

definition Asset :: "asset_msg \<Rightarrow> error + asset_msg" where
  "Asset kwargs =
     (if field_is is_bytes (m_file kwargs) \<and> field_is is_string (m_filename kwargs)
         \<and> field_is is_string (m_type kwargs) \<and> field_is is_string (m_metadata kwargs)
         \<and> field_is is_string (m_bucket kwargs)
      then Inr kwargs
      else Inl (TypeError msg_field_type))"

text \<open>
  Lines 224 to 232: type and bucket enter \<^verbatim>\<open>update_params\<close> when they are true, the
  message is built from the dictionary by \<^verbatim>\<open>opac_pb2.Asset(**update_params)\<close> and, when
  the constructor accepts it, handed to the stub.
\<close>

definition update_asset_send ::
  "'s stub \<Rightarrow> pyval \<Rightarrow> pyval \<Rightarrow> asset_msg \<Rightarrow> 's world \<Rightarrow> (error + string option) \<times> 's world" where
  "update_asset_send st filetype bucket_name update_params w =
     (let p1 = (if truthy filetype then update_params\<lparr>m_type := Some filetype\<rparr>
                else update_params);
          p2 = (if truthy bucket_name then p1\<lparr>m_bucket := Some bucket_name\<rparr> else p1)
      in case Asset p2 of
           Inl e \<Rightarrow> (Inl e, w)
         | Inr asset \<Rightarrow>
             (case invoke (Update_asset asset) (rpc_update_asset st asset) w of
                (Inl e, w') \<Rightarrow> (Inl e, w')
              | (Inr i, w') \<Rightarrow> (Inr (Some i), w')))"

text \<open>Lines 202 to 222: the content source, when there is one.\<close>

definition update_asset_content ::
  "'s stub \<Rightarrow> files \<Rightarrow> content option \<Rightarrow> pyval \<Rightarrow> pyval \<Rightarrow> pyval \<Rightarrow> asset_msg \<Rightarrow> 's world
     \<Rightarrow> (error + string option) \<times> 's world" where
  "update_asset_content st fs pfile filename filetype bucket_name update_params w =
     (case pfile of
        None \<Rightarrow> update_asset_send st filetype bucket_name update_params w
      | Some (Stream bs) \<Rightarrow>
          (if \<not> truthy filename then (Inl (IOError msg_filename), log_msg msg_filename w)
           else update_asset_send st filetype bucket_name
                  (update_params\<lparr>m_file := Some (PBytes bs), m_filename := Some filename\<rparr>) w)
      | Some (Path p) \<Rightarrow>
          (case fs p of
             Some bs \<Rightarrow>
               update_asset_send st filetype bucket_name
                 (update_params\<lparr>m_file := Some (PBytes bs),
                                 m_filename := Some (PStr (basename p))\<rparr>) w
           | None \<Rightarrow> (Inl (IOError msg_unreadable), log_msg (log_unreadable p) w)))"

text \<open>Lines 193 to 200: the metadata entry of \<^verbatim>\<open>update_params\<close>.\<close>

definition update_asset_metadata ::
  "'s stub \<Rightarrow> files \<Rightarrow> content option \<Rightarrow> pyval \<Rightarrow> pyval \<Rightarrow> pyval \<Rightarrow> pyval \<Rightarrow> 's world
     \<Rightarrow> (error + string option) \<times> 's world" where
  "update_asset_metadata st fs pfile filename filetype metadata bucket_name w =
     (if \<not> truthy metadata
        then update_asset_content st fs pfile filename filetype bucket_name
               (no_fields\<lparr>m_metadata := Some (PDict [])\<rparr>) w
      else if \<not> is_dict metadata
        then (Inl (ValueError msg_metadata), log_msg msg_metadata w)
      else (case json_dumps metadata of
              Inl e \<Rightarrow> (Inl e, w)
            | Inr js \<Rightarrow>
                update_asset_content st fs pfile filename filetype bucket_name
                  (no_fields\<lparr>m_metadata := Some (PStr js)\<rparr>) w))"

text \<open>
  Lines 186 to 191 and 233 to 235. Every keyword argument defaults to \<^verbatim>\<open>None\<close>, so an
  argument left out is \<open>PNone\<close> (\<open>None\<close> for the content source). The result \<open>None\<close> is the
  function falling off its end.
\<close>

definition update_asset ::
  "'s stub \<Rightarrow> files \<Rightarrow> pyval \<Rightarrow> content option \<Rightarrow> pyval \<Rightarrow> pyval \<Rightarrow> pyval \<Rightarrow> pyval \<Rightarrow> 's world
     \<Rightarrow> (error + string option) \<times> 's world" where
  "update_asset st fs uuid pfile filename filetype metadata bucket_name w =
     (case uuid of
        PStr u \<Rightarrow>
          (case invoke (Exists_asset u) (rpc_exists_asset st u) w of
             (Inl e, w') \<Rightarrow> (Inl e, w')
           | (Inr True, w') \<Rightarrow>
               update_asset_metadata st fs pfile filename filetype metadata bucket_name w'
           | (Inr False, w') \<Rightarrow> (Inr None, log_msg (log_absent u) w'))
      | _ \<Rightarrow> (Inl (ValueError msg_uuid), w))"

section \<open>Client.remove\_asset and the bucket operations\<close>

definition msg_id_quoted :: string where
  "msg_id_quoted = ''Param '' @ [CHR 0x22] @ ''id'' @ [CHR 0x22] @ '' must be a str|unicode.''"

definition msg_name :: string where
  "msg_name = ''Param name must be a str|unicode.''"

definition msg_new_name :: string where
  "msg_new_name = ''Param new_name must be a str|unicode.''"

definition msg_name_quoted :: string where
  "msg_name_quoted = ''Param '' @ [CHR 0x22] @ ''name'' @ [CHR 0x22] @ '' must be a str|unicode.''"

text \<open>Lines 237 to 251.\<close>

definition remove_asset :: "'s stub \<Rightarrow> pyval \<Rightarrow> 's world \<Rightarrow> (error + pyval option) \<times> 's world" where
  "remove_asset st ident w =
     (case ident of
        PStr i \<Rightarrow>
          (case invoke (Exists_asset i) (rpc_exists_asset st i) w of
             (Inl e, w') \<Rightarrow> (Inl e, w')
           | (Inr True, w') \<Rightarrow>
               (case invoke (Remove_asset i) (rpc_remove_asset st i) w' of
                  (Inl e, w'') \<Rightarrow> (Inl e, w'')
                | (Inr ack, w'') \<Rightarrow> (Inr (Some ack), w''))
           | (Inr False, w') \<Rightarrow> (Inr None, w'))
      | _ \<Rightarrow> (Inl (ValueError msg_id_quoted), w))"

text \<open>Lines 253 to 270.\<close>

definition add_bucket :: "'s stub \<Rightarrow> pyval \<Rightarrow> 's world \<Rightarrow> (error + string) \<times> 's world" where
  "add_bucket st name w =
     (case name of
        PStr n \<Rightarrow> invoke (Add_bucket n) (rpc_add_bucket st n) w
      | _ \<Rightarrow> (Inl (ValueError msg_name), log_msg msg_name w))"

text \<open>Lines 272 to 296.\<close>

definition update_bucket :: "'s stub \<Rightarrow> pyval \<Rightarrow> pyval \<Rightarrow> 's world \<Rightarrow> (error + string) \<times> 's world" where
  "update_bucket st name new_name w =
     (case name of
        PStr n \<Rightarrow>
          (case new_name of
             PStr n' \<Rightarrow> invoke (Add_update n n') (rpc_add_update st n n') w
           | _ \<Rightarrow> (Inl (ValueError msg_new_name), log_msg msg_new_name w))
      | _ \<Rightarrow> (Inl (ValueError msg_name), log_msg msg_name w))"

text \<open>Lines 298 to 312.\<close>

definition remove_bucket :: "'s stub \<Rightarrow> pyval \<Rightarrow> 's world \<Rightarrow> (error + pyval option) \<times> 's world" where
  "remove_bucket st name w =
     (case name of
        PStr n \<Rightarrow>
          (case invoke (Exists_bucket n) (rpc_exists_bucket st n) w of
             (Inl e, w') \<Rightarrow> (Inl e, w')
           | (Inr True, w') \<Rightarrow>
               (case invoke (Remove_bucket n) (rpc_remove_bucket st n) w' of
                  (Inl e, w'') \<Rightarrow> (Inl e, w'')
                | (Inr ack, w'') \<Rightarrow> (Inr (Some ack), w''))
           | (Inr False, w') \<Rightarrow> (Inr None, w'))
      | _ \<Rightarrow> (Inl (ValueError msg_name_quoted), w))"

section \<open>Client construction\<close>

text \<open>
  The four module constants of lines 13 to 16, read from the environment when the module is
  imported.
\<close>

record config =
  HOST_NAME :: string
  HOST_PORT :: string
  HTTP_PROTO_PORT :: string
  PROTO_PATH :: string

definition default_config :: config where
  "default_config = \<lparr>HOST_NAME = ''localhost'', HOST_PORT = ''5000'',
                      HTTP_PROTO_PORT = ''8001'', PROTO_PATH = ''/static/proto/opac.proto''\<rparr>"

datatype net_event = Http_get string | Open_channel string

definition proto_url :: "string \<Rightarrow> string \<Rightarrow> string \<Rightarrow> string" where
  "proto_url host http_port proto_path = ''http://'' @ host @ '':'' @ http_port @ proto_path"

text \<open>
  Modelled from the spec: \<^verbatim>\<open>utils.generate_pb_files\<close> is not among the sources. Section 4.1
  of the specification has the provisioner issue an HTTP GET to
  \<^verbatim>\<open>http://{host}:{http_port}{proto_path}\<close>, built from the three arguments it is given.
\<close>

definition generate_pb_files :: "string \<Rightarrow> string \<Rightarrow> string \<Rightarrow> net_event list" where
  "generate_pb_files host http_port proto_path = [Http_get (proto_url host http_port proto_path)]"

definition str_default :: "string \<Rightarrow> string option \<Rightarrow> string" where
  "str_default d a = (case a of None \<Rightarrow> d | Some v \<Rightarrow> v)"

text \<open>
  Lines 28 to 44. An argument the caller leaves out takes the module constant as its
  default. The result lists what the constructor does on the network, in order. The fetch
  of lines 18 to 23 belongs to the import of the module, when no compiled schema is found,
  and is over before any constructor runs.
\<close>

definition Client_init ::
  "config \<Rightarrow> string option \<Rightarrow> string option \<Rightarrow> string option \<Rightarrow> string option \<Rightarrow> bool
     \<Rightarrow> net_event list" where
  "Client_init cfg host port proto_http_port proto_path update_pb_class =
     (let host' = str_default (HOST_NAME cfg) host;
          port' = str_default (HOST_PORT cfg) port;
          proto_http_port' = str_default (HTTP_PROTO_PORT cfg) proto_http_port;
          proto_path' = str_default (PROTO_PATH cfg) proto_path
      in (if update_pb_class
            then generate_pb_files (HOST_NAME cfg) (HTTP_PROTO_PORT cfg) (PROTO_PATH cfg)
          else [])
         @ [Open_channel (host' @ '':'' @ port')])"

section \<open>A server that stores and echoes\<close>

text \<open>
  A stand-in for the remote service, used to run the client on concrete inputs: it keeps the
  asset messages it is sent under identifiers it numbers itself, newest first, answers
  \<^verbatim>\<open>get_asset\<close> with the fields of the stored message as they are (a field that was not set
  reads as empty), and keeps a list of bucket names.
\<close>

record store =
  assets :: "(string \<times> asset_msg) list"
  buckets :: "string list"

definition field_or :: "pyval \<Rightarrow> pyval option \<Rightarrow> pyval" where
  "field_or d f = (case f of None \<Rightarrow> d | Some v \<Rightarrow> v)"

definition echo_reply :: "string \<Rightarrow> asset_msg \<Rightarrow> asset_reply" where
  "echo_reply i m = \<lparr>r_file = field_or (PBytes []) (m_file m),
                     r_filename = field_or (PStr []) (m_filename m),
                     r_type = field_or (PStr []) (m_type m),
                     r_metadata = field_or (PStr []) (m_metadata m),
                     r_uuid = PStr i,
                     r_bucket = field_or (PStr []) (m_bucket m)\<rparr>"

definition echo_stub :: "store stub" where
  "echo_stub =
     \<lparr>rpc_add_asset = (\<lambda>m s. (Inr (dec_digits (length (assets s))),
                               s\<lparr>assets := (dec_digits (length (assets s)), m) # assets s\<rparr>)),
      rpc_get_asset = (\<lambda>i s. (case map_of (assets s) i of
                                 None \<Rightarrow> Inl (RpcError ''NOT_FOUND'')
                               | Some m \<Rightarrow> Inr (echo_reply i m), s)),
      rpc_get_asset_info = (\<lambda>i s. (case map_of (assets s) i of
                                      None \<Rightarrow> Inl (RpcError ''NOT_FOUND'')
                                    | Some m \<Rightarrow> Inr \<lparr>r_url = PStr (''http://ssm/'' @ i),
                                                     r_url_path = PStr (''/'' @ i)\<rparr>, s)),
      rpc_get_task_state = (\<lambda>i s. (Inr (PStr ''SUCCESS''), s)),
      rpc_exists_asset = (\<lambda>i s. (Inr (map_of (assets s) i \<noteq> None), s)),
      rpc_update_asset = (\<lambda>m s. (Inr ''updated'', s)),
      rpc_remove_asset = (\<lambda>i s. (Inr (PBool True),
                                  s\<lparr>assets := filter (\<lambda>kv. fst kv \<noteq> i) (assets s)\<rparr>)),
      rpc_add_bucket = (\<lambda>n s. (Inr n, s\<lparr>buckets := n # buckets s\<rparr>)),
      rpc_add_update = (\<lambda>n n' s. (Inr n',
                                   s\<lparr>buckets := map (\<lambda>b. if b = n then n' else b) (buckets s)\<rparr>)),
      rpc_exists_bucket = (\<lambda>n s. (Inr (n \<in> set (buckets s)), s)),
      rpc_remove_bucket = (\<lambda>n s. (Inr (PBool True),
                                   s\<lparr>buckets := filter (\<lambda>b. b \<noteq> n) (buckets s)\<rparr>))\<rparr>"

text \<open>A world in which the server holds one asset, under the identifier 0, and one bucket.\<close>

definition world1 :: "store world" where
  "world1 = \<lparr>calls = [], logs = [],
             server = \<lparr>assets = [(''0'', no_fields)], buckets = [''photos'']\<rparr>\<rparr>"

section \<open>Vocabulary of the properties\<close>

text \<open>
  A call is rejected when it raises \<^verbatim>\<open>ValueError\<close> and leaves the list of stub calls and
  the server as they were: no stub method ran.
\<close>

fun is_ValueError :: "error + 'a \<Rightarrow> bool" where
  "is_ValueError (Inl (ValueError msg)) = True"
| "is_ValueError r = False"

definition rejected :: "(error + 'a) \<times> 's world \<Rightarrow> 's world \<Rightarrow> bool" where
  "rejected r w = (is_ValueError (fst r) \<and> calls (snd r) = calls w \<and> server (snd r) = server w)"

text \<open>The world after one stub call \<open>c\<close> that left the server in state \<open>s'\<close>.\<close>

definition probed :: "call \<Rightarrow> 's \<Rightarrow> 's world \<Rightarrow> 's world" where
  "probed c s' w = w\<lparr>calls := calls w @ [c], server := s'\<rparr>"

lemmas op_defs = get_asset_def get_asset_info_def get_task_state_def update_asset_def
  remove_asset_def add_bucket_def update_bucket_def remove_bucket_def

text \<open>
  The metadata passes lines 64 to 69 and the encoder: it is false (and replaced by the empty
  dictionary) or a dictionary the encoder accepts. \<open>encoded_metadata\<close> is the text that
  \<^verbatim>\<open>add_asset\<close> then puts on the wire.
\<close>

definition metadata_ok :: "pyval \<Rightarrow> bool" where
  "metadata_ok metadata = (if truthy metadata then is_dict metadata \<and> json_ok metadata else True)"

definition encoded_metadata :: "pyval \<Rightarrow> string" where
  "encoded_metadata metadata = json_text (if truthy metadata then metadata else PDict [])"

text \<open>
  The content source resolves to bytes: a stream comes with a true file name, a path names a
  readable file. For \<^verbatim>\<open>update_asset\<close> the source may also be absent.
\<close>

definition content_ok :: "files \<Rightarrow> content \<Rightarrow> pyval \<Rightarrow> bool" where
  "content_ok fs pfile filename =
     (case pfile of Stream bs \<Rightarrow> truthy filename | Path p \<Rightarrow> fs p \<noteq> None)"

definition update_content_ok :: "files \<Rightarrow> content option \<Rightarrow> pyval \<Rightarrow> bool" where
  "update_content_ok fs pfile filename =
     (case pfile of None \<Rightarrow> True | Some c \<Rightarrow> content_ok fs c filename)"

text \<open>
  The values that \<^verbatim>\<open>update_asset\<close> puts into \<^verbatim>\<open>update_params\<close> beside the metadata are of
  the types of their fields: the file name that comes with a stream, and the type and the
  bucket name when they are true, are strings.
\<close>

definition update_fields_ok :: "content option \<Rightarrow> pyval \<Rightarrow> pyval \<Rightarrow> pyval \<Rightarrow> bool" where
  "update_fields_ok pfile filename filetype bucket_name =
     ((case pfile of Some (Stream bs) \<Rightarrow> is_string filename | _ \<Rightarrow> True)
      \<and> (if truthy filetype then is_string filetype else True)
      \<and> (if truthy bucket_name then is_string bucket_name else True))"

lemmas add_defs = add_asset_def add_asset_body_def add_asset_content_def add_asset_send_def

lemmas update_defs = update_asset_def update_asset_metadata_def update_asset_content_def
  update_asset_send_def

section \<open>Identifiers and names that are not strings\<close>

text \<open>
  C5. Every read, update and remove operation, and the two bucket operations that take a
  name, given an identifier or name that is not a string, raises \<^verbatim>\<open>ValueError\<close> and
  invokes no stub method. For \<^verbatim>\<open>update_bucket\<close> this holds with the bad value in either
  position, whatever the other argument is.
\<close>

theorem non_string_id_rejected:
  assumes "\<not> is_string x"
  shows "rejected (get_asset st x w) w
       \<and> rejected (get_asset_info st x w) w
       \<and> rejected (get_task_state st x w) w
       \<and> rejected (update_asset st fs x pfile filename filetype metadata bucket_name w) w
       \<and> rejected (remove_asset st x w) w
       \<and> rejected (add_bucket st x w) w
       \<and> rejected (update_bucket st x y w) w
       \<and> rejected (update_bucket st y x w) w
       \<and> rejected (remove_bucket st x w) w"
  using assms
  by (cases x; cases y) (simp_all add: op_defs rejected_def log_msg_def)

theorem non_string_id_rejected_witness:
  "\<not> is_string (PInt 5)
   \<and> rejected (get_asset echo_stub (PInt 5) world1) world1
   \<and> rejected (remove_bucket echo_stub (PInt 5) world1) world1
   \<and> rejected (update_bucket echo_stub (PStr ''photos'') (PInt 5) world1) world1"
  using non_string_id_rejected
    [of "PInt 5" echo_stub world1 Map.empty None PNone PNone PNone PNone "PStr ''photos''"]
  by simp

section \<open>Existence probes that answer no\<close>

text \<open>
  C2. When the existence probe answers false, \<^verbatim>\<open>update_asset\<close>, \<^verbatim>\<open>remove_asset\<close> and
  \<^verbatim>\<open>remove_bucket\<close> return \<^verbatim>\<open>None\<close> without raising, and the probe is the only stub
  method they invoke: no mutating call is made. \<^verbatim>\<open>update_asset\<close> also writes one line to
  the log; this holds for every content source and every metadata value, valid or not.
\<close>

theorem absent_entity_is_noop:
  "(rpc_exists_asset st u (server w) = (Inr False, s') \<longrightarrow>
      update_asset st fs (PStr u) pfile filename filetype metadata bucket_name w
        = (Inr None, log_msg (log_absent u) (probed (Exists_asset u) s' w))
      \<and> remove_asset st (PStr u) w = (Inr None, probed (Exists_asset u) s' w)
      \<and> filter mutating
           (calls (snd (update_asset st fs (PStr u) pfile filename filetype metadata
                          bucket_name w)))
          = filter mutating (calls w)
      \<and> filter mutating (calls (snd (remove_asset st (PStr u) w))) = filter mutating (calls w))
   \<and> (rpc_exists_bucket st n (server w) = (Inr False, s'') \<longrightarrow>
      remove_bucket st (PStr n) w = (Inr None, probed (Exists_bucket n) s'' w)
      \<and> filter mutating (calls (snd (remove_bucket st (PStr n) w))) = filter mutating (calls w))"
  by (simp add: op_defs invoke_def probed_def log_msg_def)

theorem absent_entity_is_noop_witness:
  "rpc_exists_asset echo_stub ''7'' (server world1) = (Inr False, server world1)
   \<and> rpc_exists_bucket echo_stub ''music'' (server world1) = (Inr False, server world1)
   \<and> update_asset echo_stub Map.empty (PStr ''7'') (Some (Stream [1])) (PStr ''f'') PNone
        (PInt 3) PNone world1
        = (Inr None, log_msg (log_absent ''7'')
                       (probed (Exists_asset ''7'') (server world1) world1))
   \<and> remove_asset echo_stub (PStr ''7'') world1
        = (Inr None, probed (Exists_asset ''7'') (server world1) world1)
   \<and> remove_bucket echo_stub (PStr ''music'') world1
        = (Inr None, probed (Exists_bucket ''music'') (server world1) world1)"
  using absent_entity_is_noop
    [of echo_stub "''7''" world1 "server world1" Map.empty "Some (Stream [1])" "PStr ''f''"
        PNone "PInt 3" PNone "''music''" "server world1"]
  by (simp add: echo_stub_def world1_def)

section \<open>Metadata that is not a mapping\<close>

text \<open>
  C1, as amended. For every metadata argument that is true and not a dictionary,
  \<^verbatim>\<open>add_asset\<close> raises \<^verbatim>\<open>ValueError\<close> with no stub method invoked, whatever the other
  arguments are. \<^verbatim>\<open>update_asset\<close> with a string identifier first invokes the existence
  probe, and nothing else: when the probe answers true it raises the same \<^verbatim>\<open>ValueError\<close>,
  when it answers false it returns \<^verbatim>\<open>None\<close>, and when the probe itself raises, that
  exception is passed on.
\<close>

theorem non_mapping_metadata_rejected:
  assumes "truthy metadata" and "\<not> is_dict metadata"
  shows "add_asset st fs pfile filename filetype (Some metadata) bucket_name w
           = (Inl (ValueError msg_metadata), log_msg msg_metadata w)
       \<and> rejected (add_asset st fs pfile filename filetype (Some metadata) bucket_name w) w
       \<and> update_asset st fs (PStr u) upfile ufilename ufiletype metadata ubucket w
           = (case rpc_exists_asset st u (server w) of
                (Inl e, s') \<Rightarrow> (Inl e, probed (Exists_asset u) s' w)
              | (Inr True, s') \<Rightarrow>
                  (Inl (ValueError msg_metadata),
                   log_msg msg_metadata (probed (Exists_asset u) s' w))
              | (Inr False, s') \<Rightarrow>
                  (Inr None, log_msg (log_absent u) (probed (Exists_asset u) s' w)))"
proof -
  from assms
  have added: "add_asset st fs pfile filename filetype (Some metadata) bucket_name w
                 = (Inl (ValueError msg_metadata), log_msg msg_metadata w)"
    by (simp add: add_asset_def add_asset_body_def or_default_def)
  have "rejected (Inl (ValueError msg_metadata), log_msg msg_metadata w) w"
    by (simp add: rejected_def log_msg_def)
  moreover from assms
  have "update_asset st fs (PStr u) upfile ufilename ufiletype metadata ubucket w
           = (case rpc_exists_asset st u (server w) of
                (Inl e, s') \<Rightarrow> (Inl e, probed (Exists_asset u) s' w)
              | (Inr True, s') \<Rightarrow>
                  (Inl (ValueError msg_metadata),
                   log_msg msg_metadata (probed (Exists_asset u) s' w))
              | (Inr False, s') \<Rightarrow>
                  (Inr None, log_msg (log_absent u) (probed (Exists_asset u) s' w)))"
    by (simp add: update_asset_def update_asset_metadata_def invoke_def probed_def
          split: prod.splits sum.splits bool.splits)
  ultimately show ?thesis
    using added by simp
qed

theorem non_mapping_metadata_rejected_witness:
  "truthy (PInt 5) \<and> \<not> is_dict (PInt 5)
   \<and> rejected (add_asset echo_stub Map.empty (Stream [1]) (Some (PStr ''f'')) None
                  (Some (PInt 5)) None world1) world1
   \<and> update_asset echo_stub Map.empty (PStr ''0'') None PNone PNone (PInt 5) PNone world1
       = (Inl (ValueError msg_metadata),
          log_msg msg_metadata (probed (Exists_asset ''0'') (server world1) world1))"
  using non_mapping_metadata_rejected
    [of "PInt 5" echo_stub Map.empty "Stream [1]" "Some (PStr ''f'')" None None world1
        "''0''" None PNone PNone PNone]
  by (simp add: echo_stub_def world1_def rejected_def log_msg_def)

text \<open>
  The claim as written fails twice. The integer 0 is neither a mapping nor \<^verbatim>\<open>None\<close>, yet
  \<^verbatim>\<open>add_asset\<close> takes it for absent metadata and sends the asset. And \<^verbatim>\<open>update_asset\<close>
  given the metadata 5 has invoked the existence probe by the time it raises.
\<close>

theorem metadata_checked_first_counterexample:
  "\<not> is_dict (PInt 0) \<and> PInt 0 \<noteq> PNone
   \<and> \<not> is_ValueError (fst (add_asset echo_stub Map.empty (Stream [1]) (Some (PStr ''f'')) None
                              (Some (PInt 0)) None world1))
   \<and> \<not> is_dict (PInt 5) \<and> PInt 5 \<noteq> PNone
   \<and> calls (snd (update_asset echo_stub Map.empty (PStr ''0'') None PNone PNone (PInt 5) PNone
                    world1)) = calls world1 @ [Exists_asset ''0'']"
  by (simp add: add_defs update_defs or_default_def json_dumps_def invoke_def echo_stub_def
        world1_def log_msg_def Let_def)

section \<open>The address of the protocol file\<close>

lemma Client_init_refresh:
  "Client_init cfg host port proto_http_port proto_path True
     = [Http_get (proto_url (HOST_NAME cfg) (HTTP_PROTO_PORT cfg) (PROTO_PATH cfg)),
        Open_channel (str_default (HOST_NAME cfg) host @ '':'' @ str_default (HOST_PORT cfg) port)]"
  by (simp add: Client_init_def generate_pb_files_def Let_def)

text \<open>
  C3. With a refresh forced, the constructor called with host \<^verbatim>\<open>ssm.example\<close>, HTTP port
  9000 and path \<^verbatim>\<open>/p.proto\<close>, in a process whose environment sets none of the four
  variables, fetches the protocol file from \<^verbatim>\<open>localhost:8001\<close> at the default path: line 39
  passes the module constants, not the arguments. The address the claim expects is not
  requested; the channel does go to the host and port of the caller.
\<close>

theorem refresh_ignores_arguments:
  "Client_init default_config (Some ''ssm.example'') (Some ''5000'') (Some ''9000'')
     (Some ''/p.proto'') True
     = [Http_get ''http://localhost:8001/static/proto/opac.proto'',
        Open_channel ''ssm.example:5000'']
   \<and> Http_get (proto_url ''ssm.example'' ''9000'' ''/p.proto'')
       \<notin> set (Client_init default_config (Some ''ssm.example'') (Some ''5000'') (Some ''9000'')
                 (Some ''/p.proto'') True)"
  by (simp add: Client_init_def default_config_def generate_pb_files_def proto_url_def
        str_default_def)

section \<open>A stream without a file name, on update\<close>

text \<open>
  What line 207 does, for every input: when the existence probe answers true and the
  metadata passes its test and the encoder, \<^verbatim>\<open>update_asset\<close> given a stream and no true
  file name raises \<^verbatim>\<open>IOError\<close>, after the probe and before any other stub call, where
  \<^verbatim>\<open>add_asset\<close> on the same arguments raises \<^verbatim>\<open>ValueError\<close> with the same message.
\<close>

lemma update_asset_stream_unnamed:
  assumes "rpc_exists_asset st u (server w) = (Inr True, s')"
    and "\<not> truthy filename" and "metadata_ok metadata"
  shows "update_asset st fs (PStr u) (Some (Stream bs)) filename filetype metadata bucket_name w
           = (Inl (IOError msg_filename),
              log_msg msg_filename (probed (Exists_asset u) s' w))
       \<and> add_asset st fs (Stream bs) (Some filename) afiletype (Some metadata) abucket w
           = (Inl (ValueError msg_filename), log_msg msg_filename w)"
proof (cases "truthy metadata")
  case True
  with assms have "is_dict metadata" and "json_ok metadata"
    by (simp_all add: metadata_ok_def)
  with True assms(1,2) show ?thesis
    by (simp add: add_asset_def add_asset_body_def add_asset_content_def
          update_asset_def update_asset_metadata_def update_asset_content_def
          or_default_def invoke_def probed_def json_dumps_def)
next
  case False
  with assms(1,2) show ?thesis
    by (simp add: add_asset_def add_asset_body_def add_asset_content_def
          update_asset_def update_asset_metadata_def update_asset_content_def
          or_default_def invoke_def probed_def)
qed

text \<open>
  C4. The claim has \<^verbatim>\<open>update_asset\<close> fail with the \<^verbatim>\<open>ValueError\<close> of \<^verbatim>\<open>add_asset\<close> when
  a stream comes without a file name. The code does not: for the asset the server holds
  under 0, a stream and no file name, \<^verbatim>\<open>update_asset\<close> raises \<^verbatim>\<open>IOError\<close>, while
  \<^verbatim>\<open>add_asset\<close> on the same stream raises \<^verbatim>\<open>ValueError\<close>, as its documentation says, with
  the same message.
\<close>

theorem update_asset_unnamed_stream_raises_IOError:
  "update_asset echo_stub Map.empty (PStr ''0'') (Some (Stream [1])) PNone PNone PNone PNone
     world1
     = (Inl (IOError msg_filename),
        log_msg msg_filename (probed (Exists_asset ''0'') (server world1) world1))
   \<and> add_asset echo_stub Map.empty (Stream [1]) None None None None world1
     = (Inl (ValueError msg_filename), log_msg msg_filename world1)
   \<and> IOError msg_filename \<noteq> ValueError msg_filename"
  by (simp add: add_defs update_asset_def update_asset_metadata_def update_asset_content_def
        or_default_def invoke_def echo_stub_def world1_def log_msg_def probed_def)

section \<open>Adding an asset from a stream\<close>

text \<open>
  C6. Given a stream and a true file name, with metadata that passes its test,
  \<^verbatim>\<open>add_asset\<close> makes exactly one stub call, \<^verbatim>\<open>add_asset\<close> with a message whose file field
  is the bytes read from the stream, and returns what that call returns: the new identifier
  when the service answers. Given a stream and no true file name (left out, empty or
  \<^verbatim>\<open>None\<close>) it raises \<^verbatim>\<open>ValueError\<close> and invokes no stub method, whatever the metadata.
\<close>

theorem add_asset_stream:
  "(truthy (or_default (PStr []) filename) \<and> metadata_ok (or_default (PStr []) metadata) \<longrightarrow>
      (let asset = \<lparr>m_file = Some (PBytes bs),
                     m_filename = Some (or_default (PStr []) filename),
                     m_type = Some (or_default (PStr []) filetype),
                     m_metadata = Some (PStr (encoded_metadata (or_default (PStr []) metadata))),
                     m_bucket = Some (or_default (PStr default_bucket_name) bucket_name)\<rparr>
       in add_asset st fs (Stream bs) filename filetype metadata bucket_name w
            = invoke (Add_asset asset) (rpc_add_asset st asset) w))
   \<and> (\<not> truthy (or_default (PStr []) filename) \<longrightarrow>
        rejected (add_asset st fs (Stream bs) filename filetype metadata bucket_name w) w)"
  by (simp add: add_defs metadata_ok_def encoded_metadata_def json_dumps_def rejected_def
        log_msg_def Let_def)

theorem add_asset_stream_witness:
  "truthy (or_default (PStr []) (Some (PStr ''logo.png'')))
   \<and> metadata_ok (or_default (PStr []) None)
   \<and> add_asset echo_stub Map.empty (Stream [137, 80, 78, 71]) (Some (PStr ''logo.png'')) None None
        None world1
       = (Inr ''1'',
          probed (Add_asset \<lparr>m_file = Some (PBytes [137, 80, 78, 71]),
                              m_filename = Some (PStr ''logo.png''), m_type = Some (PStr []),
                              m_metadata = Some (PStr ''{}''),
                              m_bucket = Some (PStr ''UNKNOW'')\<rparr>)
            \<lparr>assets = [(''1'', \<lparr>m_file = Some (PBytes [137, 80, 78, 71]),
                              m_filename = Some (PStr ''logo.png''), m_type = Some (PStr []),
                              m_metadata = Some (PStr ''{}''),
                              m_bucket = Some (PStr ''UNKNOW'')\<rparr>), (''0'', no_fields)],
              buckets = [''photos'']\<rparr> world1)
   \<and> \<not> truthy (or_default (PStr []) None)
   \<and> rejected (add_asset echo_stub Map.empty (Stream [137, 80, 78, 71]) None None None None
                  world1) world1"
  using add_asset_stream
      [of "Some (PStr ''logo.png'')" None "[137, 80, 78, 71]" None None echo_stub Map.empty world1]
    add_asset_stream [of None None "[137, 80, 78, 71]" None None echo_stub Map.empty world1]
  by (simp add: or_default_def invoke_def echo_stub_def world1_def
        probed_def default_bucket_name_def dec_digits.simps digit_char_def metadata_ok_def
        encoded_metadata_def Let_def)

section \<open>Metadata on the way out and back\<close>

text \<open>
  C7. Against the server that stores and echoes, in any state: an asset added with the
  metadata \<^verbatim>\<open>{"a": 1}\<close> from a content source that resolves gets an identifier, and
  \<^verbatim>\<open>get_asset\<close> on that identifier returns a dictionary whose metadata entry is the string
  \<^verbatim>\<open>{"a": 1}\<close>. On any stub, \<^verbatim>\<open>get_asset\<close> hands the metadata field of the reply on as
  it is.
\<close>

theorem metadata_round_trip:
  \<open>(content_ok fs pfile (or_default (PStr []) filename) \<longrightarrow>
      (case add_asset echo_stub fs pfile filename filetype (Some (PDict [(''a'', PInt 1)]))
              bucket_name w of
         (Inl e, w') \<Rightarrow> False
       | (Inr i, w') \<Rightarrow>
           (case get_asset echo_stub (PStr i) w' of
              (Inl e, w'') \<Rightarrow> False
            | (Inr d, w'') \<Rightarrow> map_of d ''metadata'' = Some (PStr ''{"a": 1}''))))
   \<and> (rpc_get_asset st j (server v) = (Inr reply, s') \<longrightarrow>
        (case get_asset st (PStr j) v of
           (Inl e, v') \<Rightarrow> False
         | (Inr d, v') \<Rightarrow> map_of d ''metadata'' = Some (r_metadata reply)))\<close>
  by (cases pfile)
     (auto simp add: add_defs get_asset_def content_ok_def json_dumps_def or_default_def
        json_str_def esc_char_def str_of_int_def dec_digits.simps [of "Suc 0"] digit_char_def
        invoke_def echo_stub_def echo_reply_def field_or_def Let_def
        split: prod.splits option.splits sum.splits)

theorem metadata_round_trip_witness:
  \<open>content_ok Map.empty (Stream [1, 2, 3]) (or_default (PStr []) (Some (PStr ''a.bin'')))
   \<and> fst (add_asset echo_stub Map.empty (Stream [1, 2, 3]) (Some (PStr ''a.bin'')) None
             (Some (PDict [(''a'', PInt 1)])) None world1) = Inr ''1''
   \<and> fst (get_asset echo_stub (PStr ''1'')
            (snd (add_asset echo_stub Map.empty (Stream [1, 2, 3]) (Some (PStr ''a.bin'')) None
                    (Some (PDict [(''a'', PInt 1)])) None world1)))
       = Inr [(''file'', PBytes [1, 2, 3]), (''filename'', PStr ''a.bin''), (''type'', PStr []),
              (''metadata'', PStr ''{"a": 1}''), (''uuid'', PStr ''1''),
              (''bucket'', PStr ''UNKNOW'')]\<close>
  using metadata_round_trip
    [of Map.empty "Stream [1, 2, 3]" "Some (PStr ''a.bin'')" None None world1]
  by (simp add: add_defs get_asset_def content_ok_def json_dumps_def or_default_def
        json_str_def esc_char_def str_of_int_def dec_digits.simps digit_char_def
        invoke_def echo_stub_def echo_reply_def field_or_def Let_def world1_def
        default_bucket_name_def)

section \<open>The default bucket\<close>

text \<open>
  C8, as amended. When the caller names no bucket, the bucket field of the message that
  \<^verbatim>\<open>add_asset\<close> sends is the string \<^verbatim>\<open>UNKNOW\<close>, the default of line 47: the call either
  invokes no stub method or invokes \<^verbatim>\<open>add_asset\<close> once with that bucket, and it does the
  latter whenever the content source resolves and the metadata passes its test.
\<close>

theorem default_bucket_sentinel:
  "(content_ok fs pfile (or_default (PStr []) filename)
      \<and> metadata_ok (or_default (PStr []) metadata) \<longrightarrow>
      (\<exists>asset. m_bucket asset = Some (PStr ''UNKNOW'')
         \<and> calls (snd (add_asset st fs pfile filename filetype metadata None w))
             = calls w @ [Add_asset asset]))
   \<and> (calls (snd (add_asset st fs pfile filename filetype metadata None w)) = calls w
       \<or> (\<exists>asset. m_bucket asset = Some (PStr ''UNKNOW'')
             \<and> calls (snd (add_asset st fs pfile filename filetype metadata None w))
                 = calls w @ [Add_asset asset]))"
  by (cases pfile)
     (auto simp add: add_defs metadata_ok_def content_ok_def json_dumps_def or_default_def
        default_bucket_name_def log_msg_def invoke_def Let_def
        split: prod.splits option.splits)

theorem default_bucket_sentinel_witness:
  "content_ok Map.empty (Stream [1]) (or_default (PStr []) (Some (PStr ''f'')))
   \<and> metadata_ok (or_default (PStr []) None)
   \<and> map (\<lambda>c. case c of Add_asset m \<Rightarrow> m_bucket m | _ \<Rightarrow> None)
        (calls (snd (add_asset echo_stub Map.empty (Stream [1]) (Some (PStr ''f'')) None None None
                       world1)))
       = [Some (PStr ''UNKNOW'')]"
  using default_bucket_sentinel
    [of Map.empty "Stream [1]" "Some (PStr ''f'')" None echo_stub None world1]
  by (auto simp add: or_default_def world1_def content_ok_def metadata_ok_def)

text \<open>
  The claim as written fails: with no bucket named the one message sent carries
  \<^verbatim>\<open>UNKNOW\<close>, which is not the string \<^verbatim>\<open>UNKNOWN\<close>.
\<close>

theorem default_bucket_unknown_counterexample:
  "calls (snd (add_asset echo_stub Map.empty (Stream [1]) (Some (PStr ''f'')) None None None
                 world1))
     = [Add_asset \<lparr>m_file = Some (PBytes [1]), m_filename = Some (PStr ''f''),
                    m_type = Some (PStr []), m_metadata = Some (PStr ''{}''),
                    m_bucket = Some (PStr ''UNKNOW'')\<rparr>]
   \<and> PStr ''UNKNOW'' \<noteq> PStr ''UNKNOWN''"
  by (simp add: add_defs or_default_def json_dumps_def invoke_def echo_stub_def world1_def
        default_bucket_name_def Let_def)

section \<open>Adding an asset from a path\<close>

text \<open>
  C9. When the content source is the path of a readable file, the file name in the message
  is the base name of the path, and the \<^verbatim>\<open>filename\<close> argument appears nowhere in it: with
  metadata that passes its test the one stub call is \<^verbatim>\<open>add_asset\<close> with the message shown,
  and in every case the call invokes no stub method or sends a message with that file name.
\<close>

theorem add_asset_path_filename:
  assumes "fs p = Some bs"
  shows "(metadata_ok (or_default (PStr []) metadata) \<longrightarrow>
      (let asset = \<lparr>m_file = Some (PBytes bs),
                     m_filename = Some (PStr (basename p)),
                     m_type = Some (or_default (PStr []) filetype),
                     m_metadata = Some (PStr (encoded_metadata (or_default (PStr []) metadata))),
                     m_bucket = Some (or_default (PStr default_bucket_name) bucket_name)\<rparr>
       in add_asset st fs (Path p) filename filetype metadata bucket_name w
            = invoke (Add_asset asset) (rpc_add_asset st asset) w))
   \<and> (calls (snd (add_asset st fs (Path p) filename filetype metadata bucket_name w)) = calls w
       \<or> (\<exists>asset. m_filename asset = Some (PStr (basename p))
             \<and> calls (snd (add_asset st fs (Path p) filename filetype metadata bucket_name w))
                 = calls w @ [Add_asset asset]))"
  using assms
  by (simp add: add_defs metadata_ok_def encoded_metadata_def json_dumps_def
        log_msg_def invoke_def Let_def split: prod.splits)

theorem add_asset_path_filename_witness:
  "[''/srv/img/cover.jpg'' \<mapsto> [255, 216]] ''/srv/img/cover.jpg'' = Some [255, 216]
   \<and> metadata_ok (or_default (PStr []) None)
   \<and> map (\<lambda>c. case c of Add_asset m \<Rightarrow> m_filename m | _ \<Rightarrow> None)
        (calls (snd (add_asset echo_stub [''/srv/img/cover.jpg'' \<mapsto> [255, 216]]
                       (Path ''/srv/img/cover.jpg'') (Some (PStr ''other.png'')) None None None
                       world1)))
       = [Some (PStr ''cover.jpg'')]"
  using add_asset_path_filename
    [of "[''/srv/img/cover.jpg'' \<mapsto> [255, 216]]" "''/srv/img/cover.jpg''" "[255, 216]" None
        None None echo_stub "Some (PStr ''other.png'')" world1]
  by (simp add: or_default_def invoke_def echo_stub_def world1_def basename_def
        metadata_ok_def Let_def)

section \<open>The metadata field of an update\<close>

lemma Asset_rejects_raw_metadata:
  "m_metadata kwargs = Some (PDict kvs) \<Longrightarrow> Asset kwargs = Inl (TypeError msg_field_type)"
  by (simp add: Asset_def field_is_def)

lemma update_asset_send_raw:
  assumes "m_metadata update_params = Some (PDict kvs)"
  shows "update_asset_send st filetype bucket_name update_params w
           = (Inl (TypeError msg_field_type), w)"
  using assms
  by (cases "truthy filetype"; cases "truthy bucket_name")
     (simp_all add: update_asset_send_def Let_def Asset_rejects_raw_metadata)

lemma update_asset_content_raw:
  assumes "update_content_ok fs pfile filename"
    and "m_metadata update_params = Some (PDict kvs)"
  shows "update_asset_content st fs pfile filename filetype bucket_name update_params w
           = (Inl (TypeError msg_field_type), w)"
proof (cases pfile)
  case None
  with assms(2) show ?thesis
    by (simp add: update_asset_content_def update_asset_send_raw)
next
  case (Some c)
  show ?thesis
  proof (cases c)
    case (Stream bs)
    with Some assms(1) have "truthy filename"
      by (simp add: update_content_ok_def content_ok_def)
    with Some Stream assms(2) show ?thesis
      by (simp add: update_asset_content_def update_asset_send_raw)
  next
    case (Path p)
    with Some assms(1) obtain bs where "fs p = Some bs"
      by (auto simp add: update_content_ok_def content_ok_def)
    with Some Path assms(2) show ?thesis
      by (simp add: update_asset_content_def update_asset_send_raw)
  qed
qed

lemma update_asset_send_calls:
  assumes "Asset update_params = Inr update_params"
    and "if truthy filetype then is_string filetype else True"
    and "if truthy bucket_name then is_string bucket_name else True"
  shows "\<exists>asset. m_metadata asset = m_metadata update_params
     \<and> calls (snd (update_asset_send st filetype bucket_name update_params w))
         = calls w @ [Update_asset asset]"
  using assms
  by (cases "truthy filetype"; cases "truthy bucket_name")
     (simp_all add: update_asset_send_def invoke_def Let_def Asset_def field_is_def
        split: prod.splits sum.splits if_splits)

lemma update_asset_content_calls:
  assumes "update_content_ok fs pfile filename"
    and "update_fields_ok pfile filename filetype bucket_name"
  shows "\<exists>asset. m_metadata asset = Some (PStr js)
     \<and> calls (snd (update_asset_content st fs pfile filename filetype bucket_name
                      (no_fields\<lparr>m_metadata := Some (PStr js)\<rparr>) w))
         = calls w @ [Update_asset asset]"
proof -
  from assms(2)
  have typed: "if truthy filetype then is_string filetype else True"
    and bucketed: "if truthy bucket_name then is_string bucket_name else True"
    by (simp_all add: update_fields_ok_def)
  show ?thesis
  proof (cases pfile)
    case None
    have "Asset (no_fields\<lparr>m_metadata := Some (PStr js)\<rparr>)
            = Inr (no_fields\<lparr>m_metadata := Some (PStr js)\<rparr>)"
      by (simp add: Asset_def field_is_def no_fields_def)
    from update_asset_send_calls [OF this typed bucketed] None show ?thesis
      by (simp add: update_asset_content_def)
  next
    case (Some c)
    show ?thesis
    proof (cases c)
      case (Stream bs)
      with Some assms have named: "truthy filename" and stringy: "is_string filename"
        by (simp_all add: update_content_ok_def content_ok_def update_fields_ok_def)
      then have "Asset (no_fields\<lparr>m_metadata := Some (PStr js), m_file := Some (PBytes bs),
                                  m_filename := Some filename\<rparr>)
            = Inr (no_fields\<lparr>m_metadata := Some (PStr js), m_file := Some (PBytes bs),
                               m_filename := Some filename\<rparr>)"
        by (simp add: Asset_def field_is_def no_fields_def)
      from update_asset_send_calls [OF this typed bucketed] Some Stream named show ?thesis
        by (simp add: update_asset_content_def)
    next
      case (Path p)
      with Some assms(1) obtain bs where readable: "fs p = Some bs"
        by (auto simp add: update_content_ok_def content_ok_def)
      have "Asset (no_fields\<lparr>m_metadata := Some (PStr js), m_file := Some (PBytes bs),
                                  m_filename := Some (PStr (basename p))\<rparr>)
            = Inr (no_fields\<lparr>m_metadata := Some (PStr js), m_file := Some (PBytes bs),
                               m_filename := Some (PStr (basename p))\<rparr>)"
        by (simp add: Asset_def field_is_def no_fields_def)
      from update_asset_send_calls [OF this typed bucketed] Some Path readable show ?thesis
        by (simp add: update_asset_content_def)
    qed
  qed
qed

lemma update_asset_present:
  assumes "rpc_exists_asset st u (server w) = (Inr True, s')"
  shows "update_asset st fs (PStr u) pfile filename filetype metadata bucket_name w
           = update_asset_metadata st fs pfile filename filetype metadata bucket_name
               (probed (Exists_asset u) s' w)"
  using assms by (simp add: update_asset_def invoke_def probed_def)

text \<open>
  C10, as amended. In \<^verbatim>\<open>update_asset\<close>, for an asset the probe finds and a content source
  that is absent or resolves: when the metadata argument is false (left out, \<^verbatim>\<open>None\<close>, an
  empty dictionary), line 194 stores the empty dictionary itself, not a JSON text, under
  \<^verbatim>\<open>metadata\<close>; the message constructor rejects every dictionary in that field, so the
  call raises \<^verbatim>\<open>TypeError\<close> after the probe and no \<^verbatim>\<open>update_asset\<close> stub call is made.
  When the argument is a non-empty dictionary the encoder accepts, and the other values
  are of the types of their fields, the message is sent and its metadata field is the JSON
  text.
\<close>

theorem update_asset_metadata_field:
  assumes probe: "rpc_exists_asset st u (server w) = (Inr True, s')"
    and content: "update_content_ok fs pfile filename"
  shows "(\<not> truthy metadata \<longrightarrow>
           update_asset_metadata st fs pfile filename filetype metadata bucket_name
               (probed (Exists_asset u) s' w)
             = update_asset_content st fs pfile filename filetype bucket_name
                 (no_fields\<lparr>m_metadata := Some (PDict [])\<rparr>) (probed (Exists_asset u) s' w)
           \<and> update_asset st fs (PStr u) pfile filename filetype metadata bucket_name w
             = (Inl (TypeError msg_field_type), probed (Exists_asset u) s' w))
       \<and> (truthy metadata \<and> is_dict metadata \<and> json_ok metadata
            \<and> update_fields_ok pfile filename filetype bucket_name \<longrightarrow>
           (\<exists>asset. m_metadata asset = Some (PStr (json_text metadata))
              \<and> calls (snd (update_asset st fs (PStr u) pfile filename filetype metadata
                               bucket_name w))
                  = calls w @ [Exists_asset u, Update_asset asset]))
       \<and> (\<forall>kwargs kvs. m_metadata kwargs = Some (PDict kvs) \<longrightarrow>
             Asset kwargs = Inl (TypeError msg_field_type))"
proof (intro conjI impI allI)
  assume "\<not> truthy metadata"
  then show stored: "update_asset_metadata st fs pfile filename filetype metadata bucket_name
               (probed (Exists_asset u) s' w)
             = update_asset_content st fs pfile filename filetype bucket_name
                 (no_fields\<lparr>m_metadata := Some (PDict [])\<rparr>) (probed (Exists_asset u) s' w)"
    by (simp add: update_asset_metadata_def)
  show "update_asset st fs (PStr u) pfile filename filetype metadata bucket_name w
          = (Inl (TypeError msg_field_type), probed (Exists_asset u) s' w)"
    using update_asset_content_raw
      [OF content, of "no_fields\<lparr>m_metadata := Some (PDict [])\<rparr>" "[]" st filetype
          bucket_name "probed (Exists_asset u) s' w"]
    by (simp add: update_asset_present [OF probe] stored)
next
  assume ok: "truthy metadata \<and> is_dict metadata \<and> json_ok metadata
                \<and> update_fields_ok pfile filename filetype bucket_name"
  then have fields: "update_fields_ok pfile filename filetype bucket_name"
    by simp
  from ok show "\<exists>asset. m_metadata asset = Some (PStr (json_text metadata))
      \<and> calls (snd (update_asset st fs (PStr u) pfile filename filetype metadata bucket_name w))
          = calls w @ [Exists_asset u, Update_asset asset]"
    using update_asset_content_calls
      [OF content fields, of "json_text metadata" st "probed (Exists_asset u) s' w"]
    by (simp add: update_asset_present [OF probe] update_asset_metadata_def probed_def
          json_dumps_def)
next
  fix kwargs :: asset_msg and kvs
  assume "m_metadata kwargs = Some (PDict kvs)"
  then show "Asset kwargs = Inl (TypeError msg_field_type)"
    by (rule Asset_rejects_raw_metadata)
qed

theorem update_asset_metadata_field_witness:
  \<open>rpc_exists_asset echo_stub ''0'' (server world1) = (Inr True, server world1)
   \<and> update_content_ok Map.empty None PNone
   \<and> \<not> truthy PNone
   \<and> update_asset echo_stub Map.empty (PStr ''0'') None PNone (PStr ''image'') PNone PNone world1
      = (Inl (TypeError msg_field_type), probed (Exists_asset ''0'') (server world1) world1)
   \<and> truthy (PDict [(''a'', PInt 1)]) \<and> is_dict (PDict [(''a'', PInt 1)])
   \<and> json_ok (PDict [(''a'', PInt 1)])
   \<and> update_fields_ok None PNone (PStr ''image'') PNone
   \<and> calls (snd (update_asset echo_stub Map.empty (PStr ''0'') None PNone (PStr ''image'')
                    (PDict [(''a'', PInt 1)]) PNone world1))
      = [Exists_asset ''0'',
         Update_asset \<lparr>m_file = None, m_filename = None, m_type = Some (PStr ''image''),
                        m_metadata = Some (PStr ''{"a": 1}''), m_bucket = None\<rparr>]\<close>
  using update_asset_metadata_field
      [of echo_stub "''0''" world1 "server world1" Map.empty None PNone PNone "PStr ''image''"
          PNone]
    update_asset_metadata_field
      [of echo_stub "''0''" world1 "server world1" Map.empty None PNone
          "PDict [(''a'', PInt 1)]" "PStr ''image''" PNone]
  by (simp add: update_defs update_content_ok_def update_fields_ok_def no_fields_def invoke_def
        Let_def echo_stub_def world1_def Asset_def field_is_def probed_def json_dumps_def
        json_str_def esc_char_def str_of_int_def dec_digits.simps digit_char_def)

text \<open>
  The claim as written fails: it has the empty dictionary travel in the outgoing message.
  For the asset the server holds under 0, updated with a type and no metadata, the call
  raises \<^verbatim>\<open>TypeError\<close> and the existence probe is the only stub call: no message goes out.
\<close>

theorem update_asset_raw_metadata_counterexample:
  "update_asset echo_stub Map.empty (PStr ''0'') None PNone (PStr ''image'') PNone PNone world1
     = (Inl (TypeError msg_field_type), probed (Exists_asset ''0'') (server world1) world1)
   \<and> calls (snd (update_asset echo_stub Map.empty (PStr ''0'') None PNone (PStr ''image'') PNone
                    PNone world1))
     = [Exists_asset ''0'']"
  by (simp add: update_defs no_fields_def invoke_def Let_def echo_stub_def world1_def
        Asset_def field_is_def probed_def)

end
